theory Spec2Isabelle
  imports Main
begin

section \<open>The wmsproxy tile gateway (src/main.go, the variant with the timestamp cache)\<close>

text \<open>
  The repository holds three historical variants of \<^verbatim>\<open>main.go\<close>. The one modelled here is the
  variant with the timestamp cache and the alerts overlay (the second file of src/main.go,
  \<^verbatim>\<open>getTimestamps\<close>, \<^verbatim>\<open>fetchWmsTile\<close>, \<^verbatim>\<open>framesHandler\<close>, \<^verbatim>\<open>tileHandler\<close>), which the
  specification names as the system of record.

  Each handler is modelled as a function from the state of the process before the request
  to the response and the state after it. Requests are taken one after the other: the
  mutex around the cache makes every cache read and write atomic, and the interleaving of
  goroutines is not modelled.
\<close>

subsection \<open>Library functions of Go that the handlers call\<close>

text \<open>
  \<^verbatim>\<open>strings.Split(s, sep)\<close> for a separator of one character (the source splits on
  \<^verbatim>\<open>"/"\<close> and \<^verbatim>\<open>","\<close>): the pieces between the separators, in order; a string without
  separator is the only piece, also when it is empty. The result is never the empty
  list, so the first branch of the \<^theory_text>\<open>case\<close> below is never taken.
\<close>

fun Split :: "string \<Rightarrow> char \<Rightarrow> string list" where
  "Split [] sep = [[]]"
| "Split (c # cs) sep =
     (if c = sep then [] # Split cs sep
      else (case Split cs sep of
              [] \<Rightarrow> [[c]]
            | piece # pieces \<Rightarrow> (c # piece) # pieces))"

text \<open>\<^verbatim>\<open>strings.HasSuffix\<close> and \<^verbatim>\<open>strings.TrimSuffix\<close>.\<close>

definition HasSuffix :: "string \<Rightarrow> string \<Rightarrow> bool" where
  "HasSuffix s suffix =
     (length suffix \<le> length s \<and> drop (length s - length suffix) s = suffix)"

definition TrimSuffix :: "string \<Rightarrow> string \<Rightarrow> string" where
  "TrimSuffix s suffix =
     (if HasSuffix s suffix then take (length s - length suffix) s else s)"

text \<open>
  \<^verbatim>\<open>strconv.Atoi\<close> on a 64-bit platform, as \<^verbatim>\<open>strconv.ParseInt(s, 10, 0)\<close> computes it.
  The result is the value together with the error, because the tile handler drops the
  error and uses the value: 0 after a syntax error, the nearest bound of int64 after a
  range error. \<^verbatim>\<open>ParseUint\<close> reads the digits from the left and stops at the first
  character that is no digit (syntax error) or at the first overflow of uint64 (range
  error), whichever comes first.
\<close>

datatype NumError = ErrSyntax | ErrRange

definition is_digit :: "char \<Rightarrow> bool" where
  "is_digit c = (48 \<le> (of_char c :: nat) \<and> (of_char c :: nat) \<le> 57)"

definition maxUint64 :: nat where
  "maxUint64 = 18446744073709551615"

fun ParseUint_loop :: "nat \<Rightarrow> string \<Rightarrow> nat \<times> NumError option" where
  "ParseUint_loop n [] = (n, None)"
| "ParseUint_loop n (c # cs) =
     (if is_digit c then
        (if maxUint64 div 10 + 1 \<le> n then (maxUint64, Some ErrRange)
         else if maxUint64 < n * 10 + (of_char c - 48) then (maxUint64, Some ErrRange)
         else ParseUint_loop (n * 10 + (of_char c - 48)) cs)
      else (0, Some ErrSyntax))"

definition ParseUint :: "string \<Rightarrow> nat \<times> NumError option" where
  "ParseUint s = (if s = [] then (0, Some ErrSyntax) else ParseUint_loop 0 s)"

definition Atoi :: "string \<Rightarrow> int \<times> NumError option" where
  "Atoi s =
     (if s = [] then (0, Some ErrSyntax)
      else
        (let neg = (hd s = CHR ''-'');
             s1 = (if hd s = CHR ''+'' then tl s else if neg then tl s else s);
             un = fst (ParseUint s1);
             err = snd (ParseUint s1)
         in if err = Some ErrSyntax then (0, Some ErrSyntax)
            else if neg then
              (if 9223372036854775808 < un then (- 9223372036854775808, Some ErrRange)
               else (- int un, None))
            else
              (if 9223372036854775808 \<le> un then (9223372036854775807, Some ErrRange)
               else (int un, None))))"

text \<open>\<^verbatim>\<open>strconv.ParseBool\<close>: the value, and whether the text was one of the accepted ones.\<close>

definition ParseBool :: "string \<Rightarrow> bool \<times> bool" where
  "ParseBool str =
     (if str \<in> set [''1'', ''t'', ''T'', ''TRUE'', ''true'', ''True''] then (True, True)
      else if str \<in> set [''0'', ''f'', ''F'', ''FALSE'', ''false'', ''False''] then (False, True)
      else (False, False))"

text \<open>The decimal numeral of a status code, as \<^verbatim>\<open>%d\<close> prints it.\<close>

fun Itoa :: "nat \<Rightarrow> string" where
  "Itoa n =
     (if n < 10 then [char_of (48 + n)]
      else Itoa (n div 10) @ [char_of (48 + n mod 10)])"

subsection \<open>Data model\<close>

record WMSInfo =
  URL :: string
  LayerName :: string

definition radarLayers :: "string \<rightharpoonup> WMSInfo" where
  "radarLayers = map_of
     [(''conus'', \<lparr>URL = ''https://opengeo.ncep.noaa.gov/geoserver/conus/conus_bref_qcd/ows'',
                  LayerName = ''conus_bref_qcd''\<rparr>),
      (''alaska'', \<lparr>URL = ''https://opengeo.ncep.noaa.gov/geoserver/alaska/alaska_bref_qcd/ows'',
                   LayerName = ''alaska_bref_qcd''\<rparr>),
      (''hawaii'', \<lparr>URL = ''https://opengeo.ncep.noaa.gov/geoserver/hawaii/hawaii_bref_qcd/ows'',
                   LayerName = ''hawaii_bref_qcd''\<rparr>),
      (''carib'', \<lparr>URL = ''https://opengeo.ncep.noaa.gov/geoserver/carib/carib_bref_qcd/ows'',
                  LayerName = ''carib_bref_qcd''\<rparr>),
      (''guam'', \<lparr>URL = ''https://opengeo.ncep.noaa.gov/geoserver/guam/guam_bref_qcd/ows'',
                 LayerName = ''guam_bref_qcd''\<rparr>)]"

definition hazardsLayer :: WMSInfo where
  "hazardsLayer =
     \<lparr>URL = ''https://opengeo.ncep.noaa.gov/geoserver/wwa/hazards/ows'', LayerName = ''hazards''\<rparr>"

text \<open>Instants and durations are counted in nanoseconds, as \<^verbatim>\<open>time.Duration\<close> is.\<close>

definition CACHE_DURATION :: nat where
  "CACHE_DURATION = 5 * 60 * 1000000000"

record CacheEntry =
  Timestamps :: "string list"
  Expiry :: nat

text \<open>
  A decoded image is kept symbolically: the image decoded from a response body, or the
  RGBA canvas of the bounds of the first image on which the first image was drawn with
  \<^verbatim>\<open>draw.Src\<close> and the second with \<^verbatim>\<open>draw.Over\<close>.
\<close>

datatype image = Decoded string | Composite image image

text \<open>
  Go errors, by the place that makes them; \<open>Error\<close> is the message of \<^verbatim>\<open>err.Error()\<close>.
  The messages of the transport, of the XML parser and of the image decoder come from
  the libraries.
\<close>

datatype error =
    InvalidArea string
  | TransportError string
  | XmlError string
  | StatusError nat
  | DecodeError string

fun Error :: "error \<Rightarrow> string" where
  "Error (InvalidArea area) = ''invalid area: '' @ area"
| "Error (TransportError m) = m"
| "Error (XmlError m) = m"
| "Error (StatusError code) = ''WMS server returned status '' @ Itoa code"
| "Error (DecodeError m) = m"

text \<open>What \<^verbatim>\<open>client.Get\<close> comes back with: a transport error, or a status code and a body.\<close>

datatype http_result = Failed string | Response nat string

text \<open>
  The collaborators outside the repository, as parameters of the model:
  \<^item> \<open>client_Get k url\<close>: the time the \<open>k\<close>-th outbound request of the process takes and
    what it comes back with (the upstream may answer each request differently);
  \<^item> \<open>xml_Unmarshal body\<close>: the error of \<^verbatim>\<open>xml.Unmarshal\<close>, or the character data of
    \<^verbatim>\<open>Capability/Layer/Layer/Dimension\<close>;
  \<^item> \<open>image_Decode body\<close>: the error of \<^verbatim>\<open>image.Decode\<close>, or the image;
  \<^item> \<open>Encode params\<close>: \<^verbatim>\<open>url.Values.Encode\<close> of the parameters added;
  \<^item> \<open>tileToBoundingBox x y zoom\<close>: the text that the function of this name prints with
    \<^verbatim>\<open>%f\<close> from its float64 arithmetic. Floating point is not modelled, and the handler
    only passes the text on to the upstream request.
\<close>

record env =
  client_Get :: "nat \<Rightarrow> string \<Rightarrow> nat \<times> http_result"
  xml_Unmarshal :: "string \<Rightarrow> string + string"
  image_Decode :: "string \<Rightarrow> string + image"
  Encode :: "(string \<times> string) list \<Rightarrow> string"
  tileToBoundingBox :: "int \<Rightarrow> int \<Rightarrow> int \<Rightarrow> string"

text \<open>
  The state of the process: the cache (the global map), the clock that \<^verbatim>\<open>time.Now()\<close>
  reads, the lines written with \<^verbatim>\<open>log.Printf\<close>, and the URLs handed to \<^verbatim>\<open>client.Get\<close>,
  oldest first.
\<close>

record world =
  cache :: "string \<rightharpoonup> CacheEntry"
  now :: nat
  logged :: "string list"
  requests :: "string list"

record request =
  Path :: string
  Query :: "(string \<times> string) list"

text \<open>\<^verbatim>\<open>url.Values.Get\<close>: the first value of the key, or the empty string.\<close>

definition query_Get :: "(string \<times> string) list \<Rightarrow> string \<Rightarrow> string" where
  "query_Get q k = (case map_of q k of None \<Rightarrow> [] | Some v \<Rightarrow> v)"

text \<open>
  What the client of the gateway gets: \<^verbatim>\<open>http.Error(w, msg, code)\<close>, a PNG body, a JSON
  body, or nothing at all when the handler panics (net/http recovers the panic and
  closes the connection).
\<close>

datatype response =
    HttpError nat string
  | PngImage image
  | JsonBody "string list"
  | Panic

fun status :: "response \<Rightarrow> nat option" where
  "status (HttpError code msg) = Some code"
| "status (PngImage img) = Some 200"
| "status (JsonBody ts) = Some 200"
| "status Panic = None"

subsection \<open>The outbound request\<close>

definition Get :: "env \<Rightarrow> string \<Rightarrow> world \<Rightarrow> http_result \<times> world" where
  "Get e url s =
     (let r = client_Get e (length (requests s)) url
      in (snd r, s\<lparr>now := now s + fst r, requests := requests s @ [url]\<rparr>))"

subsection \<open>getTimestamps (src/main.go, lines 200-244)\<close>

definition log_Printf :: "string \<Rightarrow> world \<Rightarrow> world" where
  "log_Printf line s = s\<lparr>logged := logged s @ [line]\<rparr>"

text \<open>
  The lookup \<^verbatim>\<open>entry, found := cache[area]\<close> gives the zero entry for a missing key.
  The clock is read once for the test of the expiry and once more, after the upstream
  has answered, for the new expiry.
\<close>

definition getTimestamps :: "env \<Rightarrow> string \<Rightarrow> world \<Rightarrow> (error + string list) \<times> world" where
  "getTimestamps e area s =
     (let entry = (case cache s area of
                     None \<Rightarrow> \<lparr>Timestamps = [], Expiry = 0\<rparr>
                   | Some en \<Rightarrow> en);
          found = (case cache s area of None \<Rightarrow> False | Some en \<Rightarrow> True)
      in if found \<and> now s < Expiry entry then
           (Inr (Timestamps entry),
            log_Printf (''Returning cached timestamps for '' @ [CHR 0x27] @ area @ [CHR 0x27]) s)
         else
           (let s1 = log_Printf
                       (''Fetching new timestamps for '' @ [CHR 0x27] @ area @ [CHR 0x27]) s
            in case radarLayers area of
                 None \<Rightarrow> (Inl (InvalidArea area), s1)
               | Some wmsInfo \<Rightarrow>
                   (let capsURL =
                          URL wmsInfo @ ''?service=wms&version=1.3.0&request=GetCapabilities'';
                        resp = Get e capsURL s1;
                        s2 = snd resp
                    in case fst resp of
                         Failed m \<Rightarrow> (Inl (TransportError m), s2)
                       | Response code body \<Rightarrow>
                           (case xml_Unmarshal e body of
                              Inl m \<Rightarrow> (Inl (XmlError m), s2)
                            | Inr text \<Rightarrow>
                                (let timestamps = Split text CHR '','';
                                     frameCount = (if length timestamps < 12
                                                   then length timestamps else 12);
                                     recentTimestamps =
                                       drop (length timestamps - frameCount) timestamps
                                 in (Inr recentTimestamps,
                                     s2\<lparr>cache := (cache s2)(area \<mapsto>
                                        \<lparr>Timestamps = recentTimestamps,
                                         Expiry = now s2 + CACHE_DURATION\<rparr>)\<rparr>))))))"

subsection \<open>fetchWmsTile (src/main.go, lines 255-284)\<close>

definition fetchWmsTile ::
  "env \<Rightarrow> WMSInfo \<Rightarrow> string \<Rightarrow> string \<Rightarrow> world \<Rightarrow> (error + image) \<times> world" where
  "fetchWmsTile e wms bbox time s =
     (let params =
            [(''SERVICE'', ''WMS''), (''VERSION'', ''1.3.0''), (''REQUEST'', ''GetMap''),
             (''FORMAT'', ''image/png''), (''TRANSPARENT'', ''true''),
             (''LAYERS'', LayerName wms), (''WIDTH'', ''256''), (''HEIGHT'', ''256''),
             (''CRS'', ''EPSG:3857''), (''BBOX'', bbox)]
            @ (if time = [] then [] else [(''TIME'', time)]);
          wmsURL = URL wms @ ''?'' @ Encode e params;
          resp = Get e wmsURL s;
          s1 = snd resp
      in case fst resp of
           Failed m \<Rightarrow> (Inl (TransportError m), s1)
         | Response code body \<Rightarrow>
             (if code = 200 then
                (case image_Decode e body of
                   Inl m \<Rightarrow> (Inl (DecodeError m), s1)
                 | Inr img \<Rightarrow> (Inr img, s1))
              else (Inl (StatusError code), s1)))"

subsection \<open>The handlers (src/main.go, lines 288-347)\<close>

definition framesHandler :: "env \<Rightarrow> request \<Rightarrow> world \<Rightarrow> response \<times> world" where
  "framesHandler e r s =
     (let area0 = query_Get (Query r) ''area'';
          area = (if area0 = [] then ''conus'' else area0);
          res = getTimestamps e area s
      in case fst res of
           Inl err \<Rightarrow> (HttpError 500 (Error err), snd res)
         | Inr timestamps \<Rightarrow> (JsonBody timestamps, snd res))"

text \<open>
  Lines 326-346 of \<^verbatim>\<open>tileHandler\<close>, from the lookup of the area's layer to the response.
  \<^verbatim>\<open>radarLayers[area]\<close> is read without its \<^verbatim>\<open>ok\<close>, so an unknown area gives the zero
  \<^verbatim>\<open>WMSInfo\<close>. A failed overlay fetch leaves \<^verbatim>\<open>radarImg\<close> as it is; this variant writes no
  log line there.
\<close>

definition tileHandler_fetch ::
  "env \<Rightarrow> string \<Rightarrow> int \<Rightarrow> int \<Rightarrow> int \<Rightarrow> bool \<Rightarrow> string \<Rightarrow> world \<Rightarrow> response \<times> world" where
  "tileHandler_fetch e area x y zoom showAlerts timestamp s =
     (let radarInfo = (case radarLayers area of
                         None \<Rightarrow> \<lparr>URL = [], LayerName = []\<rparr>
                       | Some info \<Rightarrow> info);
          bbox = tileToBoundingBox e x y zoom;
          radar = fetchWmsTile e radarInfo bbox timestamp s
      in case fst radar of
           Inl err \<Rightarrow> (HttpError 500 (Error err), snd radar)
         | Inr radarImg \<Rightarrow>
             (if showAlerts then
                (let alerts = fetchWmsTile e hazardsLayer bbox timestamp (snd radar)
                 in case fst alerts of
                      Inl err \<Rightarrow> (PngImage radarImg, snd alerts)
                    | Inr alertsImg \<Rightarrow> (PngImage (Composite radarImg alertsImg), snd alerts))
              else (PngImage radarImg, snd radar)))"

text \<open>
  \<^verbatim>\<open>tileHandler\<close>, lines 304-324 and then the rest above. The length of \<^verbatim>\<open>parts\<close> is not
  checked: with fewer than five pieces, \<^verbatim>\<open>parts[2]\<close>, \<^verbatim>\<open>parts[3]\<close> or \<^verbatim>\<open>parts[4]\<close>
  panics (index out of range) before anything else is done. The errors of \<^verbatim>\<open>Atoi\<close> and
  \<^verbatim>\<open>ParseBool\<close> are dropped.
\<close>

definition tileHandler :: "env \<Rightarrow> request \<Rightarrow> world \<Rightarrow> response \<times> world" where
  "tileHandler e r s =
     (let parts = Split (Path r) CHR ''/''
      in if length parts < 5 then (Panic, s)
         else
           (let zoom = fst (Atoi (parts ! 2));
                x = fst (Atoi (parts ! 3));
                y = fst (Atoi (TrimSuffix (parts ! 4) ''.png''));
                query = Query r;
                area0 = query_Get query ''area'';
                area = (if area0 = [] then ''conus'' else area0);
                showAlerts = fst (ParseBool (query_Get query ''alerts''));
                timestamp = query_Get query ''time''
            in if timestamp = [] then
                 (let res = getTimestamps e area s
                  in case fst res of
                       Inl err \<Rightarrow> (HttpError 500 ''Could not get latest timestamp'', snd res)
                     | Inr timestamps \<Rightarrow>
                         (if length timestamps = 0
                          then (HttpError 500 ''Could not get latest timestamp'', snd res)
                          else tileHandler_fetch e area x y zoom showAlerts
                                 (timestamps ! (length timestamps - 1)) (snd res)))
               else tileHandler_fetch e area x y zoom showAlerts timestamp s))"

subsection \<open>The process as a whole\<close>

text \<open>
  \<^verbatim>\<open>main\<close> registers the two handlers and writes one log line; the cache starts empty. A
  state is reachable when the process can be in it between two requests: after the start,
  after time has passed, and after either handler has served a request.
\<close>

definition started :: "nat \<Rightarrow> world" where
  "started t0 = \<lparr>cache = Map.empty, now = t0, logged = [''wmsproxy started on 8080''],
                 requests = []\<rparr>"

inductive reachable :: "env \<Rightarrow> world \<Rightarrow> bool" for e :: env where
  start: "reachable e (started t0)"
| tick: "reachable e s \<Longrightarrow> reachable e (s\<lparr>now := now s + d\<rparr>)"
| tile: "reachable e s \<Longrightarrow> reachable e (snd (tileHandler e r s))"
| frames: "reachable e s \<Longrightarrow> reachable e (snd (framesHandler e r s))"

text \<open>Every entry of the cache holds between one and twelve timestamps.\<close>

definition cache_ok :: "world \<Rightarrow> bool" where
  "cache_ok s =
     (\<forall>area en. cache s area = Some en \<longrightarrow>
        Timestamps en \<noteq> [] \<and> length (Timestamps en) \<le> 12)"

subsection \<open>Concrete collaborators and requests\<close>

text \<open>
  An upstream that answers every request after one microsecond with status 200, whose
  capabilities list fourteen timestamps (\<open>a\<close> to \<open>n\<close>) and whose tiles decode.
\<close>

definition upstream_ok :: env where
  "upstream_ok =
     \<lparr>client_Get = (\<lambda>k url. (1000, Response 200 ''body'')),
      xml_Unmarshal = (\<lambda>body. Inr ''a,b,c,d,e,f,g,h,i,j,k,l,m,n''),
      image_Decode = (\<lambda>body. Inr (Decoded body)),
      Encode = (\<lambda>params. concat (map (\<lambda>p. fst p @ ''='' @ snd p @ ''&'') params)),
      tileToBoundingBox = (\<lambda>x y zoom. ''bbox'')\<rparr>"

text \<open>The same upstream, but only its first answer arrives: every later request fails.\<close>

definition upstream_first_only :: env where
  "upstream_first_only =
     upstream_ok\<lparr>client_Get :=
       (\<lambda>k url. if k = 0 then (1000, Response 200 ''body'') else (1000, Failed ''timeout''))\<rparr>"

text \<open>The same upstream, but its capabilities list no timestamp at all.\<close>

definition upstream_no_frames :: env where
  "upstream_no_frames = upstream_ok\<lparr>xml_Unmarshal := (\<lambda>body. Inr [])\<rparr>"


definition req_no_suffix :: request where
  "req_no_suffix =
     \<lparr>Path = ''/tiles/8/79/98'', Query = [(''time'', ''2025-01-01T00:00:00Z'')]\<rparr>"

definition req_mars :: request where
  "req_mars = \<lparr>Path = ''/tiles/8/79/98.png'', Query = [(''area'', ''mars'')]\<rparr>"

definition req_area_upper :: request where
  "req_area_upper = \<lparr>Path = ''/tiles/8/79/98.png'', Query = [(''area'', ''CONUS'')]\<rparr>"

definition req_area_lower :: request where
  "req_area_lower = \<lparr>Path = ''/tiles/8/79/98.png'', Query = [(''area'', ''conus'')]\<rparr>"

definition req_alerts :: request where
  "req_alerts =
     \<lparr>Path = ''/tiles/8/79/98.png'',
      Query = [(''alerts'', ''true''), (''time'', ''2025-01-01T00:00:00Z'')]\<rparr>"

text \<open>
  The state after the first request for the frames of \<open>conus\<close> was served by
  \<open>upstream_ok\<close>, one microsecond after the start at instant 0.
\<close>

definition warm :: world where
  "warm =
     \<lparr>cache = [''conus'' \<mapsto>
        \<lparr>Timestamps = [''c'', ''d'', ''e'', ''f'', ''g'', ''h'', ''i'', ''j'', ''k'', ''l'', ''m'', ''n''],
         Expiry = 300000001000\<rparr>],
      now = 1000,
      logged = [''wmsproxy started on 8080'',
                ''Fetching new timestamps for '' @ [CHR 0x27] @ ''conus'' @ [CHR 0x27]],
      requests = [''https://opengeo.ncep.noaa.gov/geoserver/conus/conus_bref_qcd/ows''
                  @ ''?service=wms&version=1.3.0&request=GetCapabilities'']\<rparr>"

section \<open>Properties\<close>

subsection \<open>Splitting, suffixes and the outbound requests\<close>

lemma Split_not_Nil [simp]: "Split s sep \<noteq> []"
  by (induction s) (auto split: list.splits)

lemma length_Split_pos: "1 \<le> length (Split s sep)"
  by (cases "Split s sep") (use Split_not_Nil in auto)

lemma Split_append: "Split (p @ sep # y) sep = Split p sep @ Split y sep"
  by (induction p) (auto split: list.splits)

lemma Split_no_sep: "sep \<notin> set y \<Longrightarrow> Split y sep = [y]"
  by (induction y) auto

lemma TrimSuffix_append: "TrimSuffix (y @ suf) suf = y"
  by (simp add: TrimSuffix_def HasSuffix_def)

lemma TrimSuffix_none: "\<not> HasSuffix y suf \<Longrightarrow> TrimSuffix y suf = y"
  by (simp add: TrimSuffix_def)

lemma Get_cache [simp]: "cache (snd (Get e url s)) = cache s"
  by (simp add: Get_def Let_def)

lemma Get_requests: "requests (snd (Get e url s)) = requests s @ [url]"
  by (simp add: Get_def Let_def)

lemma Get_logged [simp]: "logged (snd (Get e url s)) = logged s"
  by (simp add: Get_def Let_def)

lemma fetchWmsTile_cache [simp]: "cache (snd (fetchWmsTile e wms bbox t s)) = cache s"
  by (simp add: fetchWmsTile_def Let_def split: http_result.splits sum.splits)

lemma fetchWmsTile_logged [simp]: "logged (snd (fetchWmsTile e wms bbox t s)) = logged s"
  by (simp add: fetchWmsTile_def Let_def split: http_result.splits sum.splits)


lemma tileHandler_fetch_cache [simp]:
  "cache (snd (tileHandler_fetch e area x y zoom al t s)) = cache s"
  by (simp add: tileHandler_fetch_def Let_def split: sum.splits)

lemma tileHandler_fetch_status:
  "status (fst (tileHandler_fetch e area x y zoom al t s)) \<in> {Some 200, Some 500}"
  by (simp add: tileHandler_fetch_def Let_def split: sum.splits)

lemma tileHandler_status:
  "status (fst (tileHandler e r s)) \<in> {None, Some 200, Some 500}"
  using tileHandler_fetch_status
  by (auto simp add: tileHandler_def Let_def split: sum.splits)

subsection \<open>Facts about getTimestamps\<close>

lemma getTimestamps_hit:
  assumes "cache s area = Some en" and "now s < Expiry en"
  shows "getTimestamps e area s =
           (Inr (Timestamps en),
            log_Printf (''Returning cached timestamps for '' @ [CHR 0x27] @ area @ [CHR 0x27]) s)"
  using assms by (simp add: getTimestamps_def)

lemma getTimestamps_refreshed:
  assumes miss: "cache s area = None \<or> (\<exists>en. cache s area = Some en \<and> \<not> now s < Expiry en)"
    and area: "radarLayers area = Some info"
    and get: "client_Get e (length (requests s))
                (URL info @ ''?service=wms&version=1.3.0&request=GetCapabilities'')
              = (d, Response code body)"
    and xml: "xml_Unmarshal e body = Inr text"
  shows "getTimestamps e area s =
           (Inr (drop (length (Split text CHR '','') - min 12 (length (Split text CHR '','')))
                   (Split text CHR '','')),
            s\<lparr>logged := logged s @
                  [''Fetching new timestamps for '' @ [CHR 0x27] @ area @ [CHR 0x27]],
              now := now s + d,
              requests := requests s @
                  [URL info @ ''?service=wms&version=1.3.0&request=GetCapabilities''],
              cache := (cache s)(area \<mapsto>
                 \<lparr>Timestamps =
                    drop (length (Split text CHR '','') - min 12 (length (Split text CHR '','')))
                      (Split text CHR '',''),
                  Expiry = now s + d + CACHE_DURATION\<rparr>)\<rparr>)"
proof -
  have cnt: "(if length (Split text CHR '','') < 12 then length (Split text CHR '','') else 12)
             = min 12 (length (Split text CHR '',''))"
    by (simp add: min_def)
  show ?thesis
  proof (cases "cache s area")
    case None
    then show ?thesis
      using area get xml cnt
      by (simp add: getTimestamps_def Get_def Let_def log_Printf_def)
  next
    case (Some en)
    with miss have "\<not> now s < Expiry en" by simp
    with Some show ?thesis
      using area get xml cnt
      by (simp add: getTimestamps_def Get_def Let_def log_Printf_def)
  qed
qed

text \<open>
  Claim C4. When \<^verbatim>\<open>getTimestamps(area)\<close> finds no entry for the area, or one that has
  expired, and the capabilities request and the XML parse succeed, then it returns exactly
  the last \<open>min 12 (length all)\<close> pieces of the comma-split dimension text \<open>all\<close>, and
  stores exactly these under the area with an expiry of five minutes after the current
  time. The current time is the clock when the entry is written, that is after the
  upstream has answered (\<open>d\<close> later than at the start of the call).
\<close>

theorem getTimestamps_refresh_last_twelve:
  assumes miss: "cache s area = None \<or> (\<exists>en. cache s area = Some en \<and> \<not> now s < Expiry en)"
    and area: "radarLayers area = Some info"
    and get: "client_Get e (length (requests s))
                (URL info @ ''?service=wms&version=1.3.0&request=GetCapabilities'')
              = (d, Response code body)"
    and xml: "xml_Unmarshal e body = Inr text"
    and all: "all = Split text CHR '',''"
    and recent: "recent = drop (length all - min 12 (length all)) all"
    and after: "s' = snd (getTimestamps e area s)"
  shows "fst (getTimestamps e area s) = Inr recent \<and>
         length recent = min 12 (length all) \<and>
         (\<exists>older. all = older @ recent) \<and>
         cache s' area = Some \<lparr>Timestamps = recent, Expiry = now s' + CACHE_DURATION\<rparr> \<and>
         now s' = now s + d"
proof -
  have "all = take (length all - min 12 (length all)) all @ recent"
    by (simp add: recent)
  then have older: "\<exists>older. all = older @ recent" ..
  have len: "length recent = min 12 (length all)"
    by (simp add: recent)
  show ?thesis
    using getTimestamps_refreshed [OF miss area get xml] older len
    by (simp add: all recent after)
qed

text \<open>
  The theorem at the upstream \<open>upstream_ok\<close>, just after the start: of fourteen timestamps
  the last twelve are returned and cached, to expire five minutes after the answer.
\<close>

theorem getTimestamps_refresh_last_twelve_witness:
  "fst (getTimestamps upstream_ok ''conus'' (started 0))
     = Inr [''c'', ''d'', ''e'', ''f'', ''g'', ''h'', ''i'', ''j'', ''k'', ''l'', ''m'', ''n''] \<and>
   cache (snd (getTimestamps upstream_ok ''conus'' (started 0))) ''conus''
     = Some \<lparr>Timestamps = [''c'', ''d'', ''e'', ''f'', ''g'', ''h'', ''i'', ''j'', ''k'', ''l'', ''m'', ''n''],
             Expiry = 300000001000\<rparr> \<and>
   now (snd (getTimestamps upstream_ok ''conus'' (started 0))) = 1000"
  using getTimestamps_refresh_last_twelve
    [of "started 0" "''conus''"
        "\<lparr>URL = ''https://opengeo.ncep.noaa.gov/geoserver/conus/conus_bref_qcd/ows'',
          LayerName = ''conus_bref_qcd''\<rparr>"
        upstream_ok 1000 200 "''body''" "''a,b,c,d,e,f,g,h,i,j,k,l,m,n''"
        "Split ''a,b,c,d,e,f,g,h,i,j,k,l,m,n'' CHR '',''"
        "drop 2 (Split ''a,b,c,d,e,f,g,h,i,j,k,l,m,n'' CHR '','')"
        "snd (getTimestamps upstream_ok ''conus'' (started 0))"]
  by (simp add: started_def upstream_ok_def radarLayers_def CACHE_DURATION_def)

lemma getTimestamps_Inr_cached:
  assumes "getTimestamps e area s = (Inr ts, s1)"
  shows "\<exists>en. cache s1 area = Some en \<and> Timestamps en = ts"
  using assms
  by (auto simp add: getTimestamps_def Let_def log_Printf_def
      split: if_splits option.splits http_result.splits sum.splits)

lemma getTimestamps_requests:
  "length (requests (snd (getTimestamps e area s))) \<le> Suc (length (requests s))"
  by (simp add: getTimestamps_def Let_def log_Printf_def Get_requests
      split: option.splits http_result.splits sum.splits)

text \<open>
  Claim C5. When \<^verbatim>\<open>getTimestamps(area)\<close> finds an entry that has not expired, it returns
  the timestamps of the entry as they are, sends no request and leaves the cache (and the
  clock) as it was; only a log line is written. Hence, of two calls for one area, the first
  sends at most one request and leaves an entry holding what it returned, and a second call
  in any later state that still has this entry, before its expiry, returns the same
  sequence and sends no request.
\<close>

theorem getTimestamps_cached:
  "(cache s area = Some en \<and> now s < Expiry en \<longrightarrow>
      fst (getTimestamps e area s) = Inr (Timestamps en) \<and>
      requests (snd (getTimestamps e area s)) = requests s \<and>
      cache (snd (getTimestamps e area s)) = cache s \<and>
      now (snd (getTimestamps e area s)) = now s) \<and>
   (getTimestamps e area s = (Inr ts, s1) \<longrightarrow>
      length (requests s1) \<le> Suc (length (requests s)) \<and>
      (\<exists>en1. cache s1 area = Some en1 \<and> Timestamps en1 = ts)) \<and>
   (getTimestamps e area s = (Inr ts, s1) \<and> cache s1 area = Some en1 \<and>
    cache s2 area = Some en1 \<and> now s2 < Expiry en1 \<longrightarrow>
      fst (getTimestamps e area s2) = Inr ts \<and>
      requests (snd (getTimestamps e area s2)) = requests s2 \<and>
      cache (snd (getTimestamps e area s2)) = cache s2)"
proof (intro conjI impI)
  assume hit: "cache s area = Some en \<and> now s < Expiry en"
  then have eq: "getTimestamps e area s =
      (Inr (Timestamps en),
       log_Printf (''Returning cached timestamps for '' @ [CHR 0x27] @ area @ [CHR 0x27]) s)"
    by (simp add: getTimestamps_hit)
  show "fst (getTimestamps e area s) = Inr (Timestamps en)"
    by (simp add: eq)
  show "requests (snd (getTimestamps e area s)) = requests s"
    by (simp add: eq log_Printf_def)
  show "cache (snd (getTimestamps e area s)) = cache s"
    by (simp add: eq log_Printf_def)
  show "now (snd (getTimestamps e area s)) = now s"
    by (simp add: eq log_Printf_def)
next
  assume first: "getTimestamps e area s = (Inr ts, s1)"
  show "length (requests s1) \<le> Suc (length (requests s))"
    using getTimestamps_requests [of e area s] by (simp add: first)
  show "\<exists>en1. cache s1 area = Some en1 \<and> Timestamps en1 = ts"
    by (rule getTimestamps_Inr_cached [OF first])
next
  assume again: "getTimestamps e area s = (Inr ts, s1) \<and> cache s1 area = Some en1 \<and>
    cache s2 area = Some en1 \<and> now s2 < Expiry en1"
  then have "\<exists>en. cache s1 area = Some en \<and> Timestamps en = ts"
    using getTimestamps_Inr_cached by blast
  with again have ts: "Timestamps en1 = ts"
    by auto
  from again have eq: "getTimestamps e area s2 =
      (Inr (Timestamps en1),
       log_Printf (''Returning cached timestamps for '' @ [CHR 0x27] @ area @ [CHR 0x27]) s2)"
    by (simp add: getTimestamps_hit)
  show "fst (getTimestamps e area s2) = Inr ts"
    by (simp add: eq ts)
  show "requests (snd (getTimestamps e area s2)) = requests s2"
    by (simp add: eq log_Printf_def)
  show "cache (snd (getTimestamps e area s2)) = cache s2"
    by (simp add: eq log_Printf_def)
qed

text \<open>
  The theorem at \<open>upstream_ok\<close>: the first call after the start leads to the state
  \<open>warm\<close>; a second call there, and one a nanosecond before the expiry, return the same
  twelve timestamps without a request.
\<close>

theorem getTimestamps_cached_witness:
  "fst (getTimestamps upstream_ok ''conus'' warm)
     = Inr [''c'', ''d'', ''e'', ''f'', ''g'', ''h'', ''i'', ''j'', ''k'', ''l'', ''m'', ''n''] \<and>
   requests (snd (getTimestamps upstream_ok ''conus'' warm)) = requests warm \<and>
   cache (snd (getTimestamps upstream_ok ''conus'' warm)) = cache warm \<and>
   length (requests warm) \<le> Suc (length (requests (started 0))) \<and>
   fst (getTimestamps upstream_ok ''conus'' (warm\<lparr>now := 300000000999\<rparr>))
     = Inr [''c'', ''d'', ''e'', ''f'', ''g'', ''h'', ''i'', ''j'', ''k'', ''l'', ''m'', ''n''] \<and>
   requests (snd (getTimestamps upstream_ok ''conus'' (warm\<lparr>now := 300000000999\<rparr>)))
     = requests warm"
proof -
  let ?ts = "[''c'', ''d'', ''e'', ''f'', ''g'', ''h'', ''i'', ''j'', ''k'', ''l'', ''m'', ''n'']"
  let ?en = "\<lparr>Timestamps = ?ts, Expiry = 300000001000\<rparr>"
  have first: "getTimestamps upstream_ok ''conus'' (started 0) = (Inr ?ts, warm)"
    by (simp add: getTimestamps_def Let_def Get_def log_Printf_def started_def upstream_ok_def
        radarLayers_def CACHE_DURATION_def warm_def)
  have entry: "cache warm ''conus'' = Some ?en"
    by (simp add: warm_def)
  have fresh: "now warm < Expiry ?en"
    by (simp add: warm_def)
  have later: "cache (warm\<lparr>now := 300000000999\<rparr>) ''conus'' = Some ?en \<and>
               now (warm\<lparr>now := 300000000999\<rparr>) < Expiry ?en"
    by (simp add: warm_def)
  from getTimestamps_cached
         [of warm "''conus''" ?en upstream_ok ?ts warm ?en "warm\<lparr>now := 300000000999\<rparr>"]
       getTimestamps_cached
         [of "started 0" "''conus''" ?en upstream_ok ?ts warm ?en "warm\<lparr>now := 300000000999\<rparr>"]
       first entry fresh later
  show ?thesis
    by simp
qed

subsection \<open>The invariant of the cache\<close>

lemma recent_bounds:
  "drop (length (Split text sep) - (if length (Split text sep) < 12
                                     then length (Split text sep) else 12))
     (Split text sep) \<noteq> [] \<and>
   length (drop (length (Split text sep) - (if length (Split text sep) < 12
                                             then length (Split text sep) else 12))
             (Split text sep)) \<le> 12"
  using length_Split_pos [of "text" sep] by auto

lemma getTimestamps_cache_ok:
  assumes "cache_ok s"
  shows "cache_ok (snd (getTimestamps e area s))"
  using assms recent_bounds
  by (auto simp add: getTimestamps_def Let_def log_Printf_def cache_ok_def
      split: option.splits http_result.splits sum.splits)

lemma getTimestamps_Inr_bounds:
  assumes "cache_ok s" and "fst (getTimestamps e area s) = Inr ts"
  shows "ts \<noteq> [] \<and> length ts \<le> 12"
proof -
  obtain s1 where "getTimestamps e area s = (Inr ts, s1)"
    using assms(2) by (cases "getTimestamps e area s") simp
  then have "\<exists>en. cache s1 area = Some en \<and> Timestamps en = ts"
    and "s1 = snd (getTimestamps e area s)"
    using getTimestamps_Inr_cached by auto
  moreover have "cache_ok (snd (getTimestamps e area s))"
    by (rule getTimestamps_cache_ok [OF assms(1)])
  ultimately show ?thesis
    by (auto simp add: cache_ok_def)
qed

lemma cache_ok_cong: "cache s = cache s' \<Longrightarrow> cache_ok s = cache_ok s'"
  by (simp add: cache_ok_def)

lemma tileHandler_cache:
  "cache (snd (tileHandler e r s)) = cache s \<or>
   (\<exists>area. cache (snd (tileHandler e r s)) = cache (snd (getTimestamps e area s)))"
  by (auto simp add: tileHandler_def Let_def split: sum.splits)

lemma tileHandler_cache_ok:
  assumes "cache_ok s"
  shows "cache_ok (snd (tileHandler e r s))"
  using tileHandler_cache [of e r s] getTimestamps_cache_ok [OF assms] assms
  by (metis cache_ok_cong)

lemma framesHandler_cache_ok:
  assumes "cache_ok s"
  shows "cache_ok (snd (framesHandler e r s))"
  using getTimestamps_cache_ok [OF assms]
  by (simp add: framesHandler_def Let_def split: sum.splits)

lemma reachable_cache_ok:
  assumes "reachable e s"
  shows "cache_ok s"
  using assms
proof (induction rule: reachable.induct)
  case (start t0)
  show ?case by (simp add: cache_ok_def started_def)
next
  case (tick s d)
  then show ?case by (simp add: cache_ok_def)
next
  case (tile s r)
  then show ?case by (simp add: tileHandler_cache_ok)
next
  case (frames s r)
  then show ?case by (simp add: framesHandler_cache_ok)
qed

lemma tileHandler_proceeds:
  assumes ok: "cache_ok s"
    and parts: "parts = Split (Path r) CHR ''/''" and len: "5 \<le> length parts"
    and notime: "query_Get (Query r) ''time'' = []"
    and area: "area = (if query_Get (Query r) ''area'' = [] then ''conus''
                       else query_Get (Query r) ''area'')"
    and got: "getTimestamps e area s = (Inr ts, s1)"
  shows "tileHandler e r s =
           tileHandler_fetch e area (fst (Atoi (parts ! 3)))
             (fst (Atoi (TrimSuffix (parts ! 4) ''.png''))) (fst (Atoi (parts ! 2)))
             (fst (ParseBool (query_Get (Query r) ''alerts''))) (last ts) s1"
proof -
  have "ts \<noteq> []"
    using getTimestamps_Inr_bounds [OF ok, of e area ts] got by simp
  then have "ts ! (length ts - 1) = last ts" and "length ts \<noteq> 0"
    by (simp_all add: last_conv_nth)
  then show ?thesis
    using len notime got
    by (simp add: tileHandler_def Let_def parts [symmetric] area [symmetric])
qed

lemma tileHandler_timestamp_error:
  assumes parts: "parts = Split (Path r) CHR ''/''" and len: "5 \<le> length parts"
    and notime: "query_Get (Query r) ''time'' = []"
    and area: "area = (if query_Get (Query r) ''area'' = [] then ''conus''
                       else query_Get (Query r) ''area'')"
    and got: "getTimestamps e area s = (Inl err, s1)"
  shows "tileHandler e r s = (HttpError 500 ''Could not get latest timestamp'', s1)"
  using len notime got
  by (simp add: tileHandler_def Let_def parts [symmetric] area [symmetric])

text \<open>
  Claim C10. Splitting on commas gives at least one piece, and the empty text gives the one
  empty piece. In every reachable state, a sequence that \<^verbatim>\<open>getTimestamps\<close> returns without
  error has between one and twelve elements. So, for a tile request without \<^verbatim>\<open>time\<close>,
  whenever \<^verbatim>\<open>getTimestamps\<close> succeeds the handler goes on to fetch with the last element:
  its answer "Could not get latest timestamp" is given only when \<^verbatim>\<open>getTimestamps\<close> returns
  an error. An upstream whose dimension text is empty gives the one empty timestamp, not
  the empty list.
\<close>

theorem getTimestamps_never_empty:
  "1 \<le> length (Split dim CHR '','') \<and>
   Split [] CHR '','' = [[]] \<and>
   (reachable e s \<and> fst (getTimestamps e area s) = Inr ts \<longrightarrow>
      ts \<noteq> [] \<and> length ts \<le> 12) \<and>
   (reachable e s \<and> parts = Split (Path r) CHR ''/'' \<and> 5 \<le> length parts \<and>
    query_Get (Query r) ''time'' = [] \<and>
    area = (if query_Get (Query r) ''area'' = [] then ''conus''
            else query_Get (Query r) ''area'') \<and>
    getTimestamps e area s = (Inr ts, s1) \<longrightarrow>
      tileHandler e r s =
        tileHandler_fetch e area (fst (Atoi (parts ! 3)))
          (fst (Atoi (TrimSuffix (parts ! 4) ''.png''))) (fst (Atoi (parts ! 2)))
          (fst (ParseBool (query_Get (Query r) ''alerts''))) (last ts) s1) \<and>
   ((cache s area = None \<or> (\<exists>en. cache s area = Some en \<and> \<not> now s < Expiry en)) \<and>
    radarLayers area = Some info \<and>
    client_Get e (length (requests s))
      (URL info @ ''?service=wms&version=1.3.0&request=GetCapabilities'')
      = (d, Response code body) \<and>
    xml_Unmarshal e body = Inr [] \<longrightarrow>
      fst (getTimestamps e area s) = Inr [[]])"
proof (intro conjI impI)
  show "1 \<le> length (Split dim CHR '','')"
    by (rule length_Split_pos)
  show "Split [] CHR '','' = [[]]"
    by simp
next
  assume "reachable e s \<and> fst (getTimestamps e area s) = Inr ts"
  then show "ts \<noteq> []" and "length ts \<le> 12"
    using getTimestamps_Inr_bounds reachable_cache_ok by blast+
next
  assume h: "reachable e s \<and> parts = Split (Path r) CHR ''/'' \<and> 5 \<le> length parts \<and>
    query_Get (Query r) ''time'' = [] \<and>
    area = (if query_Get (Query r) ''area'' = [] then ''conus''
            else query_Get (Query r) ''area'') \<and>
    getTimestamps e area s = (Inr ts, s1)"
  then have "cache_ok s"
    using reachable_cache_ok by blast
  with h show "tileHandler e r s =
        tileHandler_fetch e area (fst (Atoi (parts ! 3)))
          (fst (Atoi (TrimSuffix (parts ! 4) ''.png''))) (fst (Atoi (parts ! 2)))
          (fst (ParseBool (query_Get (Query r) ''alerts''))) (last ts) s1"
    using tileHandler_proceeds by blast
next
  assume h: "(cache s area = None \<or> (\<exists>en. cache s area = Some en \<and> \<not> now s < Expiry en)) \<and>
    radarLayers area = Some info \<and>
    client_Get e (length (requests s))
      (URL info @ ''?service=wms&version=1.3.0&request=GetCapabilities'')
      = (d, Response code body) \<and>
    xml_Unmarshal e body = Inr []"
  then show "fst (getTimestamps e area s) = Inr [[]]"
    using getTimestamps_refreshed [of s area info e d code body "[]"]
    by simp
qed

text \<open>
  The theorem at \<open>upstream_no_frames\<close>, just after the start, for the request
  \<^verbatim>\<open>/tiles/8/79/98.png?area=conus\<close>: the one empty timestamp is returned and the handler
  fetches the tile with it.
\<close>

theorem getTimestamps_never_empty_witness:
  "fst (getTimestamps upstream_no_frames ''conus'' (started 0)) = Inr [[]] \<and>
   length [[] :: string] \<le> 12 \<and>
   tileHandler upstream_no_frames req_area_lower (started 0) =
     tileHandler_fetch upstream_no_frames ''conus'' 79 98 8 False []
       (snd (getTimestamps upstream_no_frames ''conus'' (started 0))) \<and>
   fst (tileHandler upstream_no_frames req_area_lower (started 0)) = PngImage (Decoded ''body'')"
proof -
  let ?info = "\<lparr>URL = ''https://opengeo.ncep.noaa.gov/geoserver/conus/conus_bref_qcd/ows'',
                LayerName = ''conus_bref_qcd''\<rparr>"
  let ?s1 = "snd (getTimestamps upstream_no_frames ''conus'' (started 0))"
  have reach: "reachable upstream_no_frames (started 0)"
    by (rule reachable.start)
  have miss: "cache (started 0) ''conus'' = None"
    by (simp add: started_def)
  have area: "radarLayers ''conus'' = Some ?info"
    by (simp add: radarLayers_def)
  have get: "client_Get upstream_no_frames (length (requests (started 0)))
               (URL ?info @ ''?service=wms&version=1.3.0&request=GetCapabilities'')
             = (1000, Response 200 ''body'')"
    by (simp add: upstream_no_frames_def upstream_ok_def)
  have xml: "xml_Unmarshal upstream_no_frames ''body'' = Inr []"
    by (simp add: upstream_no_frames_def upstream_ok_def)
  have parts: "Split (Path req_area_lower) CHR ''/'' = [[], ''tiles'', ''8'', ''79'', ''98.png'']"
    by (simp add: req_area_lower_def)
  have query: "query_Get (Query req_area_lower) ''time'' = []"
    "query_Get (Query req_area_lower) ''area'' = ''conus''"
    "query_Get (Query req_area_lower) ''alerts'' = []"
    by (simp_all add: req_area_lower_def query_Get_def)
  have nums: "fst (Atoi ''79'') = 79" "fst (Atoi ''8'') = 8"
    "fst (Atoi (TrimSuffix ''98.png'' ''.png'')) = 98" "fst (ParseBool []) = False"
    by (simp_all add: Atoi_def ParseUint_def is_digit_def maxUint64_def TrimSuffix_def
        HasSuffix_def ParseBool_def)
  note inst = getTimestamps_never_empty
    [of "[]" upstream_no_frames "started 0" "''conus''" "[[]]"
        "Split (Path req_area_lower) CHR ''/''" req_area_lower ?s1 ?info 1000 200 "''body''"]
  have first: "fst (getTimestamps upstream_no_frames ''conus'' (started 0)) = Inr [[]]"
    using inst miss area get xml by simp
  then have pair: "getTimestamps upstream_no_frames ''conus'' (started 0) = (Inr [[]], ?s1)"
    by (simp add: prod_eq_iff)
  have handler: "tileHandler upstream_no_frames req_area_lower (started 0) =
     tileHandler_fetch upstream_no_frames ''conus'' 79 98 8 False [] ?s1"
    using inst reach pair parts query nums by simp
  have s1: "requests ?s1 = [URL ?info @ ''?service=wms&version=1.3.0&request=GetCapabilities'']"
    using getTimestamps_refreshed [of "started 0" "''conus''" ?info upstream_no_frames
        1000 200 "''body''" "[]"] miss area get xml
    by (simp add: started_def)
  have "fst (tileHandler_fetch upstream_no_frames ''conus'' 79 98 8 False [] ?s1)
          = PngImage (Decoded ''body'')"
    by (simp add: tileHandler_fetch_def fetchWmsTile_def Get_def Let_def area s1
        upstream_no_frames_def upstream_ok_def)
  with first handler show ?thesis
    by simp
qed

subsection \<open>The tile handler validates nothing\<close>









text \<open>
  Claim C6, as amended. The claim says that a path without the suffix \<^verbatim>\<open>.png\<close> is answered
  with HTTP 400. No variant of the program requires the suffix: \<^verbatim>\<open>strings.TrimSuffix\<close>
  removes it when it is there and leaves the segment alone otherwise. What holds is: a
  last segment \<open>y\<close> without the suffix is handled exactly as \<open>y.png\<close> is, whatever the
  rest of the path, the query and the state are.
\<close>

theorem tileHandler_suffix_optional:
  assumes noslash: "CHR ''/'' \<notin> set y" and nosuffix: "\<not> HasSuffix y ''.png''"
  shows "tileHandler e (r\<lparr>Path := p @ ''/'' @ y\<rparr>) s =
         tileHandler e (r\<lparr>Path := p @ ''/'' @ y @ ''.png''\<rparr>) s"
proof -
  let ?ps = "Split p CHR ''/''"
  have "CHR ''/'' \<notin> set (y @ ''.png'')"
    using noslash by simp
  then have long: "Split (p @ CHR ''/'' # y @ ''.png'') CHR ''/'' = ?ps @ [y @ ''.png'']"
    using Split_append [of p "CHR ''/''" "y @ ''.png''"] Split_no_sep [of "CHR ''/''" "y @ ''.png''"]
    by simp
  have short: "Split (p @ CHR ''/'' # y) CHR ''/'' = ?ps @ [y]"
    using Split_append [of p "CHR ''/''" y] Split_no_sep [OF noslash]
    by simp
  have trim: "TrimSuffix (y @ ''.png'') ''.png'' = TrimSuffix y ''.png''"
    using TrimSuffix_append [of y "''.png''"] TrimSuffix_none [OF nosuffix] by simp
  have nth: "4 \<le> length ?ps \<Longrightarrow>
       (?ps @ [y]) ! 2 = (?ps @ [y @ ''.png'']) ! 2 \<and>
       (?ps @ [y]) ! 3 = (?ps @ [y @ ''.png'']) ! 3 \<and>
       TrimSuffix ((?ps @ [y]) ! 4) ''.png'' = TrimSuffix ((?ps @ [y @ ''.png'']) ! 4) ''.png''"
    using trim by (simp add: nth_append)
  show ?thesis
  proof (cases "4 \<le> length ?ps")
    case True
    with nth show ?thesis
      by (simp add: tileHandler_def Let_def short long)
  next
    case False
    then show ?thesis
      by (simp add: tileHandler_def Let_def short long)
  qed
qed

text \<open>
  The claim C6 as stated fails at \<^verbatim>\<open>/tiles/8/79/98?time=2025-01-01T00:00:00Z\<close>: five
  segments, the last one without \<^verbatim>\<open>.png\<close>, and the answer is the tile, after one upstream
  request.
\<close>

theorem tileHandler_suffix_optional_counterexample:
  "length (Split (Path req_no_suffix) CHR ''/'') = 5 \<and>
   \<not> HasSuffix (Split (Path req_no_suffix) CHR ''/'' ! 4) ''.png'' \<and>
   fst (tileHandler upstream_ok req_no_suffix (started 0)) = PngImage (Decoded ''body'') \<and>
   length (requests (snd (tileHandler upstream_ok req_no_suffix (started 0)))) = 1"
  by (simp add: req_no_suffix_def HasSuffix_def
      tileHandler_def tileHandler_fetch_def fetchWmsTile_def Get_def Let_def query_Get_def
      upstream_ok_def started_def radarLayers_def ParseBool_def)

text \<open>The amended claim at \<^verbatim>\<open>/tiles/8/79/98\<close> and \<^verbatim>\<open>/tiles/8/79/98.png\<close>.\<close>

theorem tileHandler_suffix_optional_witness:
  "tileHandler upstream_ok (req_no_suffix\<lparr>Path := ''/tiles/8/79'' @ ''/'' @ ''98''\<rparr>) (started 0) =
   tileHandler upstream_ok (req_no_suffix\<lparr>Path := ''/tiles/8/79'' @ ''/'' @ ''98'' @ ''.png''\<rparr>)
     (started 0)"
proof -
  have "CHR ''/'' \<notin> set ''98''" and "\<not> HasSuffix ''98'' ''.png''"
    by (simp_all add: HasSuffix_def)
  then show ?thesis
    by (rule tileHandler_suffix_optional)
qed

subsection \<open>Failures of the two fetches\<close>

lemma fetchWmsTile_failure_kinds:
  assumes "url = URL wms @ ''?'' @ Encode e
     ([(''SERVICE'', ''WMS''), (''VERSION'', ''1.3.0''), (''REQUEST'', ''GetMap''),
       (''FORMAT'', ''image/png''), (''TRANSPARENT'', ''true''),
       (''LAYERS'', LayerName wms), (''WIDTH'', ''256''), (''HEIGHT'', ''256''),
       (''CRS'', ''EPSG:3857''), (''BBOX'', bbox)]
      @ (if t = [] then [] else [(''TIME'', t)]))"
  shows "(snd (client_Get e (length (requests s)) url) = Failed m \<longrightarrow>
            fst (fetchWmsTile e wms bbox t s) = Inl (TransportError m)) \<and>
         (snd (client_Get e (length (requests s)) url) = Response code body \<and> code \<noteq> 200 \<longrightarrow>
            fst (fetchWmsTile e wms bbox t s) = Inl (StatusError code)) \<and>
         (snd (client_Get e (length (requests s)) url) = Response 200 body \<and>
          image_Decode e body = Inl m \<longrightarrow>
            fst (fetchWmsTile e wms bbox t s) = Inl (DecodeError m)) \<and>
         (snd (client_Get e (length (requests s)) url) = Response 200 body \<and>
          image_Decode e body = Inr img \<longrightarrow>
            fst (fetchWmsTile e wms bbox t s) = Inr img)"
  by (simp add: fetchWmsTile_def Get_def Let_def assms)

lemma tileHandler_fetch_base_failure:
  assumes "fst (fetchWmsTile e (case radarLayers area of
                                   None \<Rightarrow> \<lparr>URL = [], LayerName = []\<rparr> | Some info \<Rightarrow> info)
                  (tileToBoundingBox e x y zoom) t s) = Inl err"
  shows "fst (tileHandler_fetch e area x y zoom al t s) = HttpError 500 (Error err)"
  using assms by (simp add: tileHandler_fetch_def Let_def)

lemma tileHandler_fetch_overlay_failure:
  assumes "fetchWmsTile e (case radarLayers area of
                             None \<Rightarrow> \<lparr>URL = [], LayerName = []\<rparr> | Some info \<Rightarrow> info)
             (tileToBoundingBox e x y zoom) t s = (Inr radarImg, s1)"
    and "fst (fetchWmsTile e hazardsLayer (tileToBoundingBox e x y zoom) t s1) = Inl err"
  shows "fst (tileHandler_fetch e area x y zoom True t s) = PngImage radarImg"
  using assms by (simp add: tileHandler_fetch_def Let_def)

lemma tileHandler_fetch_logged:
  "logged (snd (tileHandler_fetch e area x y zoom al t s)) = logged s"
  by (simp add: tileHandler_fetch_def Let_def split: sum.splits)

text \<open>
  Claim C3: a failed base fetch is answered with HTTP 500 and no image
  (\<open>tileHandler_fetch_base_failure\<close>, with the three kinds of failure in
  \<open>fetchWmsTile_failure_kinds\<close>), and after a failed overlay fetch the base image is
  returned as it is (\<open>tileHandler_fetch_overlay_failure\<close>). But the handler writes no log
  line for the failed overlay (\<open>tileHandler_fetch_logged\<close>), which the claim says it does.
  Here the radar tile arrives and the alerts request times out, for
  \<^verbatim>\<open>/tiles/8/79/98.png?alerts=true&time=2025-01-01T00:00:00Z\<close>: the answer is the radar
  image, two requests were sent, and the log is as it was.
\<close>

theorem tileHandler_overlay_failure_silent:
  "fst (tileHandler upstream_first_only req_alerts (started 0)) = PngImage (Decoded ''body'') \<and>
   length (requests (snd (tileHandler upstream_first_only req_alerts (started 0)))) = 2 \<and>
   logged (snd (tileHandler upstream_first_only req_alerts (started 0))) = logged (started 0)"
  by (simp add: req_alerts_def
      tileHandler_def tileHandler_fetch_def fetchWmsTile_def Get_def Let_def query_Get_def
      upstream_first_only_def upstream_ok_def started_def radarLayers_def ParseBool_def)

text \<open>
  Claim C2: an unknown area is to be answered with HTTP 400. The handler does not look the
  area up before it resolves the timestamp; for \<^verbatim>\<open>/tiles/8/79/98.png?area=mars\<close> the
  answer is HTTP 500, from the error of \<^verbatim>\<open>getTimestamps\<close>.
\<close>

theorem tileHandler_unknown_area:
  "radarLayers ''mars'' = None \<and>
   fst (tileHandler upstream_ok req_mars (started 0))
     = HttpError 500 ''Could not get latest timestamp''"
  by (simp add: req_mars_def
      tileHandler_def getTimestamps_def log_Printf_def Let_def query_Get_def
      upstream_ok_def started_def radarLayers_def ParseBool_def)

text \<open>
  Claim C7: the area is to be read without regard to case. The handler does not fold the
  case: \<^verbatim>\<open>area=CONUS\<close> is an unknown area and is answered with HTTP 500, while
  \<^verbatim>\<open>area=conus\<close> gets its tile from the same upstream in the same state.
\<close>

theorem tileHandler_area_case:
  "fst (tileHandler upstream_ok req_area_upper (started 0))
     = HttpError 500 ''Could not get latest timestamp'' \<and>
   fst (tileHandler upstream_ok req_area_lower (started 0)) = PngImage (Decoded ''body'')"
  by (simp add: req_area_upper_def req_area_lower_def
      tileHandler_def tileHandler_fetch_def fetchWmsTile_def getTimestamps_def log_Printf_def
      Get_def Let_def query_Get_def
      upstream_ok_def started_def radarLayers_def ParseBool_def)

end
